theory Spec2Isabelle
  imports Complex_Main
begin

section \<open>Values of the language\<close>

text \<open>
  A JavaScript Number is an IEEE-754 binary64 value. Its finite values are rationals;
  the two zeros are identified, since nothing in \<^verbatim>\<open>server.js\<close> tells them apart
  (both are falsy, both are equal to \<open>0\<close>, both are sent as \<open>0\<close>).
\<close>

datatype jsnum = Fin rat | NaN | PosInf | NegInf

text \<open>
  The request body as \<^verbatim>\<open>express.json()\<close> hands it over: the value \<^verbatim>\<open>JSON.parse\<close>
  built. An object is the list of its own properties (first binding of a key is the one
  read). \<^verbatim>\<open>undefined\<close> is not a JSON value: a property that is absent reads as
  \<open>None\<close>, so a value that may be \<^verbatim>\<open>undefined\<close> has type \<open>json option\<close>.
\<close>

datatype json =
    JNull
  | JBool bool
  | JNum jsnum
  | JStr string
  | JArr "json list"
  | JObj "(string \<times> json) list"

text \<open>What the handlers can throw: a \<^verbatim>\<open>TypeError\<close> of the language (reading a property
  of \<^verbatim>\<open>null\<close>) and an error of the database driver, with its message.\<close>

datatype exn = TypeError | DriverError string

text \<open>
  The conversion of a string to a Number (\<^verbatim>\<open>StringToNumber\<close> of the language) is a
  builtin of the runtime and not code of \<^verbatim>\<open>server.js\<close>: it is a parameter \<open>s2n\<close> of
  the model.
\<close>

subsection \<open>Arithmetic of Numbers\<close>

text \<open>The number of binary digits of a positive integer.\<close>

function bit_length :: "int \<Rightarrow> int" where
  "bit_length k = (if k \<le> 0 then 0 else 1 + bit_length (k div 2))"
  by pat_completeness auto
termination
  by (relation "measure nat") auto

definition pow2 :: "int \<Rightarrow> rat" where
  "pow2 e = (if 0 \<le> e then 2 ^ nat e else 1 / 2 ^ nat (- e))"

text \<open>For \<open>a > 0\<close>, the exponent \<open>e\<close> with \<open>2^e \<le> a < 2^(e+1)\<close>.\<close>

definition floor_log2 :: "rat \<Rightarrow> int" where
  "floor_log2 a =
     (case quotient_of a of (p, q) \<Rightarrow>
        (let k = bit_length p - bit_length q
         in if pow2 k \<le> a then k else k - 1))"

text \<open>The nearest integer, a tie going to the even one.\<close>

definition round_half_even :: "rat \<Rightarrow> int" where
  "round_half_even x =
     (let f = \<lfloor>x\<rfloor>; d = x - of_int f
      in if d < 1 / 2 then f else if 1 / 2 < d then f + 1 else if even f then f else f + 1)"

text \<open>
  The binary64 value nearest to a rational (round to nearest, ties to even): 53
  significant bits, the unit in the last place no smaller than \<open>2^-1074\<close> (subnormal
  numbers), and infinity when the rounded magnitude reaches \<open>2^1024\<close>. Every operation of the language on Numbers is
  the exact operation followed by this rounding; so is the reading of a number literal.
\<close>

definition fl :: "rat \<Rightarrow> jsnum" where
  "fl x =
     (if x = 0 then Fin 0
      else
        (let a = \<bar>x\<bar>;
             e = max (floor_log2 a - 52) (- 1074);
             m = round_half_even (a / pow2 e)
         in if 1024 < e + bit_length m then (if 0 < x then PosInf else NegInf)
            else Fin (if 0 < x then of_int m * pow2 e else - (of_int m * pow2 e))))"

text \<open>The sign of a Number, and the infinity of a sign (\<^verbatim>\<open>NaN\<close> for no sign).\<close>

fun signum :: "jsnum \<Rightarrow> int" where
  "signum (Fin x) = (if 0 < x then 1 else if x < 0 then - 1 else 0)"
| "signum NaN = 0"
| "signum PosInf = 1"
| "signum NegInf = - 1"

definition infinity_of :: "int \<Rightarrow> jsnum" where
  "infinity_of s = (if 0 < s then PosInf else if s < 0 then NegInf else NaN)"

text \<open>\<^verbatim>\<open>a + b\<close>.\<close>

fun num_add :: "jsnum \<Rightarrow> jsnum \<Rightarrow> jsnum" where
  "num_add (Fin x) (Fin y) = fl (x + y)"
| "num_add NaN b = NaN"
| "num_add a NaN = NaN"
| "num_add PosInf NegInf = NaN"
| "num_add NegInf PosInf = NaN"
| "num_add PosInf b = PosInf"
| "num_add a PosInf = PosInf"
| "num_add NegInf b = NegInf"
| "num_add a NegInf = NegInf"

text \<open>\<^verbatim>\<open>a * b\<close>: infinity times zero is \<^verbatim>\<open>NaN\<close>.\<close>

fun num_mul :: "jsnum \<Rightarrow> jsnum \<Rightarrow> jsnum" where
  "num_mul (Fin x) (Fin y) = fl (x * y)"
| "num_mul NaN b = NaN"
| "num_mul a NaN = NaN"
| "num_mul a b = infinity_of (signum a * signum b)"

text \<open>
  \<^verbatim>\<open>a / b\<close>. The only divisor in \<^verbatim>\<open>server.js\<close> is the literal \<open>100\<close>; for a zero
  divisor the model takes the positive zero.
\<close>

fun num_div :: "jsnum \<Rightarrow> jsnum \<Rightarrow> jsnum" where
  "num_div (Fin x) (Fin y) = (if y = 0 then infinity_of (signum (Fin x)) else fl (x / y))"
| "num_div NaN b = NaN"
| "num_div a NaN = NaN"
| "num_div (Fin x) b = Fin 0"
| "num_div a (Fin y) = infinity_of (signum a * (if y < 0 then - 1 else 1))"
| "num_div a b = NaN"

text \<open>\<^verbatim>\<open>Math.round\<close>: the integer nearest to the argument, a tie going towards
  \<open>+\<infinity>\<close>. The result is exact.\<close>

fun Math_round :: "jsnum \<Rightarrow> jsnum" where
  "Math_round (Fin x) = Fin (of_int \<lfloor>x + 1 / 2\<rfloor>)"
| "Math_round NaN = NaN"
| "Math_round PosInf = PosInf"
| "Math_round NegInf = NegInf"

subsection \<open>Conversions and tests\<close>

text \<open>
  \<^verbatim>\<open>Number(v)\<close>. An array is first turned into the string of its elements joined by
  commas (\<^verbatim>\<open>null\<close> giving the empty string), an object into \<^verbatim>\<open>[object Object]\<close>;
  a string with a comma is no numeric literal, and a Number printed and read again is
  itself.
\<close>

fun ToNumber :: "(string \<Rightarrow> jsnum) \<Rightarrow> json \<Rightarrow> jsnum" where
  "ToNumber s2n JNull = Fin 0"
| "ToNumber s2n (JBool b) = (if b then Fin 1 else Fin 0)"
| "ToNumber s2n (JNum x) = x"
| "ToNumber s2n (JStr s) = s2n s"
| "ToNumber s2n (JObj kvs) = s2n ''[object Object]''"
| "ToNumber s2n (JArr []) = s2n []"
| "ToNumber s2n (JArr [JNull]) = s2n []"
| "ToNumber s2n (JArr [JBool b]) = s2n (if b then ''true'' else ''false'')"
| "ToNumber s2n (JArr [JNum x]) = x"
| "ToNumber s2n (JArr [JStr s]) = s2n s"
| "ToNumber s2n (JArr [JObj kvs]) = s2n ''[object Object]''"
| "ToNumber s2n (JArr [JArr ys]) = ToNumber s2n (JArr ys)"
| "ToNumber s2n (JArr (x # y # zs)) = NaN"

definition Number :: "(string \<Rightarrow> jsnum) \<Rightarrow> json option \<Rightarrow> jsnum" where
  "Number s2n v = (case v of None \<Rightarrow> NaN | Some j \<Rightarrow> ToNumber s2n j)"

text \<open>\<^verbatim>\<open>v == null\<close>: true of \<^verbatim>\<open>null\<close> and of \<^verbatim>\<open>undefined\<close> only.\<close>

fun nullish :: "json option \<Rightarrow> bool" where
  "nullish None = True"
| "nullish (Some JNull) = True"
| "nullish (Some _) = False"

text \<open>The truth value of \<^verbatim>\<open>v\<close> in a condition; \<^verbatim>\<open>!v\<close> is its negation.\<close>

fun truthy :: "json option \<Rightarrow> bool" where
  "truthy None = False"
| "truthy (Some JNull) = False"
| "truthy (Some (JBool b)) = b"
| "truthy (Some (JNum x)) = (x \<noteq> Fin 0 \<and> x \<noteq> NaN)"
| "truthy (Some (JStr s)) = (s \<noteq> [])"
| "truthy (Some (JArr xs)) = True"
| "truthy (Some (JObj kvs)) = True"

text \<open>\<^verbatim>\<open>v ?? d\<close>.\<close>

definition coalesce :: "json option \<Rightarrow> json \<Rightarrow> json" where
  "coalesce v d = (case v of None \<Rightarrow> d | Some JNull \<Rightarrow> d | Some j \<Rightarrow> j)"

text \<open>
  \<^verbatim>\<open>l.k\<close> for the property names the handler reads (\<^verbatim>\<open>prd_id\<close>, \<^verbatim>\<open>qty\<close>, ...):
  reading a property of \<^verbatim>\<open>null\<close> throws, an object gives its own property, and a
  boolean, number, string or array has none of these names.
\<close>

fun getprop :: "json \<Rightarrow> string \<Rightarrow> exn + json option" where
  "getprop JNull k = Inl TypeError"
| "getprop (JObj kvs) k = Inr (map_of kvs k)"
| "getprop (JBool b) k = Inr None"
| "getprop (JNum x) k = Inr None"
| "getprop (JStr s) k = Inr None"
| "getprop (JArr xs) k = Inr None"

text \<open>The same for a value known not to be \<^verbatim>\<open>null\<close> (the request body).\<close>

definition field :: "json \<Rightarrow> string \<Rightarrow> json option" where
  "field b k = (case getprop b k of Inl e \<Rightarrow> None | Inr v \<Rightarrow> v)"

section \<open>Storage\<close>

text \<open>
  The two tables the order handler writes. \<^verbatim>\<open>ORDER_DATE\<close> is kept as the handler
  binds it: the date built from the supplied value, or the time of the request.
  A row of \<^verbatim>\<open>ORD_DTL\<close> is kept as bound: where \<^verbatim>\<open>SEQ\<close> is bound to \<^verbatim>\<open>NULL\<close>
  the trigger \<^verbatim>\<open>TRG_ORD_DTL_SEQ\<close> of the database fills it.
\<close>

datatype order_date = DateOf json | CurrentTime

record order_row =
  o_ord_id :: jsnum
  o_order_date :: order_date
  o_total_amount :: jsnum
  o_total_discount :: jsnum
  o_usr_id :: jsnum
  o_pay_stat_id :: jsnum

record dtl_row =
  d_ord_id :: jsnum
  d_seq :: "jsnum option"
  d_qty :: jsnum
  d_unit_price :: jsnum
  d_discount :: jsnum
  d_comment_text :: json
  d_rating :: json
  d_prd_id :: jsnum
  d_shp_stat_id :: jsnum

text \<open>The calls made to the driver, in order.\<close>

datatype call = GetConnection | SelectOrder jsnum | InsertOrder | InsertLines | Commit | Close

text \<open>
  The database as one request sees it: the committed rows of the two tables, the rows
  its open connection has written and not committed, and the calls made so far.
\<close>

record world =
  ORDERS :: "order_row list"
  ORD_DTL :: "dtl_row list"
  tx_ORDERS :: "order_row list"
  tx_ORD_DTL :: "dtl_row list"
  calls :: "call list"

text \<open>
  What the driver answers to each call is decided outside the program: any call can
  fail with a message (connectivity, a constraint violated by a row another session
  committed meanwhile, ...). \<^verbatim>\<open>executeMany\<close> that fails has inserted some of the
  rows before.
\<close>

record driver =
  getConnection_error :: "string option"
  select_error :: "string option"
  insert_error :: "string option"
  executeMany_error :: "(nat \<times> string) option"
  commit_error :: "string option"
  close_error :: "string option"

definition called :: "call \<Rightarrow> world \<Rightarrow> world" where
  "called c w = w\<lparr>calls := calls w @ [c]\<rparr>"

text \<open>\<^verbatim>\<open>oracledb.getConnection\<close>: a new connection has no uncommitted work.\<close>

definition getConnection :: "driver \<Rightarrow> world \<Rightarrow> (exn + unit) \<times> world" where
  "getConnection dv w =
     (case getConnection_error dv of
        Some m \<Rightarrow> (Inl (DriverError m), called GetConnection w)
      | None \<Rightarrow> (Inr (), (called GetConnection w)\<lparr>tx_ORDERS := [], tx_ORD_DTL := []\<rparr>))"

text \<open>\<^verbatim>\<open>SELECT 1 FROM ORDERS WHERE ORD_ID = :id\<close>: the committed rows with that key.\<close>

definition select_order :: "driver \<Rightarrow> jsnum \<Rightarrow> world \<Rightarrow> (exn + order_row list) \<times> world" where
  "select_order dv k w =
     (case select_error dv of
        Some m \<Rightarrow> (Inl (DriverError m), called (SelectOrder k) w)
      | None \<Rightarrow> (Inr (filter (\<lambda>r. o_ord_id r = k) (ORDERS w)), called (SelectOrder k) w))"

text \<open>\<^verbatim>\<open>INSERT INTO ORDERS\<close> with \<^verbatim>\<open>autoCommit: false\<close>; \<^verbatim>\<open>ORD_ID\<close> is the primary key.\<close>

definition insert_order :: "driver \<Rightarrow> order_row \<Rightarrow> world \<Rightarrow> (exn + unit) \<times> world" where
  "insert_order dv r w =
     (case insert_error dv of
        Some m \<Rightarrow> (Inl (DriverError m), called InsertOrder w)
      | None \<Rightarrow>
          if o_ord_id r \<in> o_ord_id ` set (ORDERS w @ tx_ORDERS w)
          then (Inl (DriverError ''ORA-00001: unique constraint violated''), called InsertOrder w)
          else (Inr (), (called InsertOrder w)\<lparr>tx_ORDERS := tx_ORDERS w @ [r]\<rparr>))"

text \<open>\<^verbatim>\<open>executeMany\<close> of the \<^verbatim>\<open>INSERT INTO ORD_DTL\<close> with \<^verbatim>\<open>autoCommit: false\<close>.\<close>

definition insert_lines :: "driver \<Rightarrow> dtl_row list \<Rightarrow> world \<Rightarrow> (exn + unit) \<times> world" where
  "insert_lines dv rs w =
     (case executeMany_error dv of
        Some (n, m) \<Rightarrow>
          (Inl (DriverError m), (called InsertLines w)\<lparr>tx_ORD_DTL := tx_ORD_DTL w @ take n rs\<rparr>)
      | None \<Rightarrow> (Inr (), (called InsertLines w)\<lparr>tx_ORD_DTL := tx_ORD_DTL w @ rs\<rparr>))"

text \<open>\<^verbatim>\<open>conn.commit()\<close>: the uncommitted rows become committed, all or none.\<close>

definition commit :: "driver \<Rightarrow> world \<Rightarrow> (exn + unit) \<times> world" where
  "commit dv w =
     (case commit_error dv of
        Some m \<Rightarrow> (Inl (DriverError m), called Commit w)
      | None \<Rightarrow>
          (Inr (), (called Commit w)\<lparr>ORDERS := ORDERS w @ tx_ORDERS w,
                                     ORD_DTL := ORD_DTL w @ tx_ORD_DTL w,
                                     tx_ORDERS := [], tx_ORD_DTL := []\<rparr>))"

text \<open>\<^verbatim>\<open>conn.close()\<close>: work not committed is rolled back.\<close>

definition close :: "driver \<Rightarrow> world \<Rightarrow> (exn + unit) \<times> world" where
  "close dv w =
     (let w' = (called Close w)\<lparr>tx_ORDERS := [], tx_ORD_DTL := []\<rparr>
      in case close_error dv of Some m \<Rightarrow> (Inl (DriverError m), w') | None \<Rightarrow> (Inr (), w'))"

section \<open>The program\<close>

text \<open>
  \<^verbatim>\<open>withConn(fn)\<close>. The connection is the uncommitted part of the world, so \<open>fn\<close>
  takes the world. Without a connection nothing is closed; with one, \<^verbatim>\<open>finally\<close>
  closes it after \<open>fn\<close> returned or threw, and what \<^verbatim>\<open>close\<close> throws is dropped.
\<close>

definition withConn ::
  "driver \<Rightarrow> (world \<Rightarrow> (exn + 'a) \<times> world) \<Rightarrow> world \<Rightarrow> (exn + 'a) \<times> world" where
  "withConn dv fn w =
     (case getConnection dv w of
        (Inl e, w1) \<Rightarrow> (Inl e, w1)
      | (Inr c, w1) \<Rightarrow>
          (case fn w1 of (r, w2) \<Rightarrow> (case close dv w2 of (released, w3) \<Rightarrow> (r, w3))))"

text \<open>\<^verbatim>\<open>calcTotals(lines)\<close>: the loop with its two accumulators, then the rounding.\<close>

fun calcTotals_loop :: "(string \<Rightarrow> jsnum) \<Rightarrow> json list \<Rightarrow> jsnum \<Rightarrow> jsnum \<Rightarrow> exn + jsnum \<times> jsnum" where
  "calcTotals_loop s2n [] totalAmount totalDiscount = Inr (totalAmount, totalDiscount)"
| "calcTotals_loop s2n (l # ls) totalAmount totalDiscount =
     (case getprop l ''qty'' of Inl e \<Rightarrow> Inl e | Inr q \<Rightarrow>
      case getprop l ''unit_price'' of Inl e \<Rightarrow> Inl e | Inr u \<Rightarrow>
      case getprop l ''discount'' of Inl e \<Rightarrow> Inl e | Inr d \<Rightarrow>
        (let qty = Number s2n (Some (coalesce q (JNum (Fin 0))));
             unit = Number s2n (Some (coalesce u (JNum (Fin 0))));
             disc = Number s2n (Some (coalesce d (JNum (Fin 0))))
         in calcTotals_loop s2n ls (num_add totalAmount (num_mul qty unit))
                                  (num_add totalDiscount disc)))"

definition round2 :: "jsnum \<Rightarrow> jsnum" where
  "round2 x = num_div (Math_round (num_mul x (Fin 100))) (Fin 100)"

definition calcTotals :: "(string \<Rightarrow> jsnum) \<Rightarrow> json list \<Rightarrow> exn + jsnum \<times> jsnum" where
  "calcTotals s2n lines =
     (case calcTotals_loop s2n lines (Fin 0) (Fin 0) of
        Inl e \<Rightarrow> Inl e
      | Inr (totalAmount, totalDiscount) \<Rightarrow> Inr (round2 totalAmount, round2 totalDiscount))"

text \<open>The test of one line in the validation loop of \<^verbatim>\<open>POST /orders/raw\<close>.\<close>

definition line_rejected :: "json \<Rightarrow> exn + bool" where
  "line_rejected l =
     (case getprop l ''prd_id'' of Inl e \<Rightarrow> Inl e | Inr p \<Rightarrow>
      if \<not> truthy p then Inr True else
      case getprop l ''qty'' of Inl e \<Rightarrow> Inl e | Inr q \<Rightarrow>
      if nullish q then Inr True else
      case getprop l ''unit_price'' of Inl e \<Rightarrow> Inl e | Inr u \<Rightarrow>
      if nullish u then Inr True else
      case getprop l ''shp_stat_id'' of Inl e \<Rightarrow> Inl e | Inr s \<Rightarrow>
      Inr (\<not> truthy s))"

text \<open>The loop over \<^verbatim>\<open>lines.entries()\<close>: the index of the first line rejected.\<close>

fun check_lines :: "nat \<Rightarrow> json list \<Rightarrow> exn + nat option" where
  "check_lines i [] = Inr None"
| "check_lines i (l # ls) =
     (case line_rejected l of
        Inl e \<Rightarrow> Inl e
      | Inr True \<Rightarrow> Inr (Some i)
      | Inr False \<Rightarrow> check_lines (Suc i) ls)"

text \<open>The binds of one line for \<^verbatim>\<open>executeMany\<close>.\<close>

definition bind_line :: "(string \<Rightarrow> jsnum) \<Rightarrow> json option \<Rightarrow> json \<Rightarrow> exn + dtl_row" where
  "bind_line s2n ord_id l =
     (case getprop l ''seq'' of Inl e \<Rightarrow> Inl e | Inr sq \<Rightarrow>
      case getprop l ''qty'' of Inl e \<Rightarrow> Inl e | Inr q \<Rightarrow>
      case getprop l ''unit_price'' of Inl e \<Rightarrow> Inl e | Inr u \<Rightarrow>
      case getprop l ''discount'' of Inl e \<Rightarrow> Inl e | Inr d \<Rightarrow>
      case getprop l ''comment_text'' of Inl e \<Rightarrow> Inl e | Inr c \<Rightarrow>
      case getprop l ''rating'' of Inl e \<Rightarrow> Inl e | Inr r \<Rightarrow>
      case getprop l ''prd_id'' of Inl e \<Rightarrow> Inl e | Inr p \<Rightarrow>
      case getprop l ''shp_stat_id'' of Inl e \<Rightarrow> Inl e | Inr s \<Rightarrow>
        Inr \<lparr> d_ord_id = Number s2n ord_id,
              d_seq = (if nullish sq then None else Some (Number s2n sq)),
              d_qty = Number s2n q,
              d_unit_price = Number s2n u,
              d_discount = (if nullish d then Fin 0 else Number s2n d),
              d_comment_text = coalesce c JNull,
              d_rating = coalesce r JNull,
              d_prd_id = Number s2n p,
              d_shp_stat_id = Number s2n s \<rparr>)"

text \<open>\<^verbatim>\<open>lines.map(...)\<close>.\<close>

fun binds :: "(string \<Rightarrow> jsnum) \<Rightarrow> json option \<Rightarrow> json list \<Rightarrow> exn + dtl_row list" where
  "binds s2n ord_id [] = Inr []"
| "binds s2n ord_id (l # ls) =
     (case bind_line s2n ord_id l of
        Inl e \<Rightarrow> Inl e
      | Inr r \<Rightarrow> (case binds s2n ord_id ls of Inl e \<Rightarrow> Inl e | Inr rs \<Rightarrow> Inr (r # rs)))"

text \<open>
  The function the order handler gives to \<^verbatim>\<open>withConn\<close>; its result is the field
  \<^verbatim>\<open>conflict\<close> of the object it returns.
\<close>

definition order_tx ::
  "(string \<Rightarrow> jsnum) \<Rightarrow> driver \<Rightarrow> json option \<Rightarrow> order_row \<Rightarrow> json list \<Rightarrow> world \<Rightarrow> (exn + bool) \<times> world" where
  "order_tx s2n dv ord_id header lines w =
     (case select_order dv (Number s2n ord_id) w of
        (Inl e, w1) \<Rightarrow> (Inl e, w1)
      | (Inr rows, w1) \<Rightarrow>
          if length rows > 0 then (Inr True, w1)
          else
            (case insert_order dv header w1 of
               (Inl e, w2) \<Rightarrow> (Inl e, w2)
             | (Inr u, w2) \<Rightarrow>
                 (case binds s2n ord_id lines of
                    Inl e \<Rightarrow> (Inl e, w2)
                  | Inr bs \<Rightarrow>
                      (case insert_lines dv bs w2 of
                         (Inl e, w3) \<Rightarrow> (Inl e, w3)
                       | (Inr u', w3) \<Rightarrow>
                           (case commit dv w3 of
                              (Inl e, w4) \<Rightarrow> (Inl e, w4)
                            | (Inr u'', w4) \<Rightarrow> (Inr False, w4))))))"

text \<open>
  What the client gets: the status and the JSON object of the response. The texts of
  the errors are
  \<^item> \<open>RequiredFields\<close>: \<^verbatim>\<open>ord_id, usr_id, pay_stat_id, lines[] are required\<close>;
  \<^item> \<open>LineFields i\<close>: \<^verbatim>\<open>lines[i] must have prd_id, qty, unit_price, shp_stat_id\<close>;
  \<^item> \<open>AlreadyExists v\<close>: \<^verbatim>\<open>ORD_ID v already exists\<close>, \<open>v\<close> the \<^verbatim>\<open>ord_id\<close> of the body;
  \<^item> \<open>Message e\<close>: \<^verbatim>\<open>err.message\<close> of the exception caught.
  An exception thrown outside the \<^verbatim>\<open>try\<close> of the handler leaves the handler
  without a response of its own: \<open>Unhandled\<close>.
\<close>

datatype error_text =
    RequiredFields
  | LineFields nat
  | AlreadyExists "json option"
  | Message exn

datatype response_body =
    Failure error_text
  | Created jsnum jsnum jsnum

datatype outcome = Reply nat response_body | Unhandled exn

definition is_array :: "json option \<Rightarrow> bool" where
  "is_array v = (case v of Some (JArr xs) \<Rightarrow> True | _ \<Rightarrow> False)"

definition elements :: "json option \<Rightarrow> json list" where
  "elements v = (case v of Some (JArr xs) \<Rightarrow> xs | _ \<Rightarrow> [])"

text \<open>\<^verbatim>\<open>req.body || {}\<close>.\<close>

definition body_of :: "json option \<Rightarrow> json" where
  "body_of req_body = (case req_body of None \<Rightarrow> JObj [] | Some b \<Rightarrow> if truthy (Some b) then b else JObj [])"

text \<open>The condition of the first \<^verbatim>\<open>if\<close> of the order handler.\<close>

definition required_missing :: "json \<Rightarrow> bool" where
  "required_missing body =
     (nullish (field body ''ord_id'') \<or> nullish (field body ''usr_id'')
      \<or> nullish (field body ''pay_stat_id'')
      \<or> \<not> is_array (field body ''lines'') \<or> length (elements (field body ''lines'')) = 0)"

text \<open>The handler of \<^verbatim>\<open>POST /orders/raw\<close>.\<close>

definition post_orders_raw :: "(string \<Rightarrow> jsnum) \<Rightarrow> driver \<Rightarrow> json option \<Rightarrow> world \<Rightarrow> outcome \<times> world" where
  "post_orders_raw s2n dv req_body w =
     (let body = body_of req_body;
          ord_id = field body ''ord_id'';
          order_date = field body ''order_date'';
          usr_id = field body ''usr_id'';
          pay_stat_id = field body ''pay_stat_id'';
          lines = field body ''lines''
      in
      if required_missing body
      then (Reply 400 (Failure RequiredFields), w)
      else
        (case check_lines 0 (elements lines) of
           Inl e \<Rightarrow> (Unhandled e, w)
         | Inr (Some i) \<Rightarrow> (Reply 400 (Failure (LineFields i)), w)
         | Inr None \<Rightarrow>
             (case calcTotals s2n (elements lines) of
                Inl e \<Rightarrow> (Unhandled e, w)
              | Inr (computedAmount, computedDiscount) \<Rightarrow>
                  (let totalAmount =
                         (if \<not> nullish (field body ''total_amount'')
                          then Number s2n (field body ''total_amount'') else computedAmount);
                       totalDiscount =
                         (if \<not> nullish (field body ''total_discount'')
                          then Number s2n (field body ''total_discount'') else computedDiscount);
                       header = \<lparr> o_ord_id = Number s2n ord_id,
                                  o_order_date =
                                    (case order_date of
                                       Some d \<Rightarrow> if truthy order_date then DateOf d else CurrentTime
                                     | None \<Rightarrow> CurrentTime),
                                  o_total_amount = totalAmount,
                                  o_total_discount = totalDiscount,
                                  o_usr_id = Number s2n usr_id,
                                  o_pay_stat_id = Number s2n pay_stat_id \<rparr>
                   in
                   (case withConn dv (order_tx s2n dv ord_id header (elements lines)) w of
                      (Inl err, w') \<Rightarrow> (Reply 500 (Failure (Message err)), w')
                    | (Inr conflict, w') \<Rightarrow>
                        if conflict then (Reply 409 (Failure (AlreadyExists ord_id)), w')
                        else (Reply 200 (Created (Number s2n ord_id) totalAmount totalDiscount), w'))))))"

section \<open>Notions used in the statements\<close>

text \<open>The success response: status 200 with the order key and the two totals.\<close>

fun created :: "outcome \<Rightarrow> bool" where
  "created (Reply st (Created k a d)) = (st = 200)"
| "created (Reply st (Failure t)) = False"
| "created (Unhandled e) = False"

text \<open>The lines of a request and the key bound to \<^verbatim>\<open>ORD_ID\<close>, as the handler reads them.\<close>

definition lines_of :: "json option \<Rightarrow> json list" where
  "lines_of req = elements (field (body_of req) ''lines'')"

definition key_of :: "(string \<Rightarrow> jsnum) \<Rightarrow> json option \<Rightarrow> jsnum" where
  "key_of s2n req = Number s2n (field (body_of req) ''ord_id'')"

text \<open>A submission that passes both validations of the handler.\<close>

definition valid_submission :: "json option \<Rightarrow> bool" where
  "valid_submission req =
     (\<not> required_missing (body_of req) \<and> check_lines 0 (lines_of req) = Inr None)"

text \<open>The totals the handler resolves, \<open>c\<close> being the pair \<^verbatim>\<open>calcTotals\<close> computed.\<close>

definition resolved_totals :: "(string \<Rightarrow> jsnum) \<Rightarrow> json option \<Rightarrow> jsnum \<times> jsnum \<Rightarrow> jsnum \<times> jsnum" where
  "resolved_totals s2n req c =
     (if \<not> nullish (field (body_of req) ''total_amount'')
      then Number s2n (field (body_of req) ''total_amount'') else fst c,
      if \<not> nullish (field (body_of req) ''total_discount'')
      then Number s2n (field (body_of req) ''total_discount'') else snd c)"

text \<open>The header row the handler binds, given the resolved totals.\<close>

definition header_of :: "(string \<Rightarrow> jsnum) \<Rightarrow> json option \<Rightarrow> jsnum \<times> jsnum \<Rightarrow> order_row" where
  "header_of s2n req t =
     \<lparr> o_ord_id = key_of s2n req,
       o_order_date =
         (case field (body_of req) ''order_date'' of
            Some d \<Rightarrow> if truthy (field (body_of req) ''order_date'') then DateOf d else CurrentTime
          | None \<Rightarrow> CurrentTime),
       o_total_amount = fst t,
       o_total_discount = snd t,
       o_usr_id = Number s2n (field (body_of req) ''usr_id''),
       o_pay_stat_id = Number s2n (field (body_of req) ''pay_stat_id'') \<rparr>"

text \<open>The calls one request added to the log.\<close>

definition calls_during :: "world \<Rightarrow> world \<Rightarrow> call list" where
  "calls_during w w' = drop (length (calls w)) (calls w')"

text \<open>
  A line that is missing a mandatory field, in the words of the specification: the
  field is absent or \<^verbatim>\<open>null\<close>.
\<close>

definition line_missing_field :: "json \<Rightarrow> bool" where
  "line_missing_field l =
     (nullish (field l ''prd_id'') \<or> nullish (field l ''qty'')
      \<or> nullish (field l ''unit_price'') \<or> nullish (field l ''shp_stat_id''))"

text \<open>
  A line the handler does not accept: the product or the shipment status is absent or
  falsy (\<^verbatim>\<open>null\<close>, \<^verbatim>\<open>false\<close>, \<open>0\<close>, the empty string), or the quantity or the
  unit price is absent or \<^verbatim>\<open>null\<close>.
\<close>

definition line_unusable :: "json \<Rightarrow> bool" where
  "line_unusable l =
     (\<not> truthy (field l ''prd_id'') \<or> nullish (field l ''qty'')
      \<or> nullish (field l ''unit_price'') \<or> \<not> truthy (field l ''shp_stat_id''))"


text \<open>
  The amount and the discount of one line, in the words of the specification: quantity
  times unit price; the line's discount, a missing one counting as \<open>0\<close>.
\<close>

definition line_amount :: "(string \<Rightarrow> jsnum) \<Rightarrow> json \<Rightarrow> jsnum" where
  "line_amount s2n l =
     num_mul (Number s2n (field l ''qty'')) (Number s2n (field l ''unit_price''))"

definition line_discount :: "(string \<Rightarrow> jsnum) \<Rightarrow> json \<Rightarrow> jsnum" where
  "line_discount s2n l =
     (if nullish (field l ''discount'') then Fin 0 else Number s2n (field l ''discount''))"

text \<open>The sum of Numbers, taken in order from \<open>0\<close>, each addition rounding.\<close>

definition sum_numbers :: "jsnum list \<Rightarrow> jsnum" where
  "sum_numbers xs = foldl num_add (Fin 0) xs"

text \<open>
  Without the arithmetic of Numbers: half-up rounding of a rational to 2 decimal places,
  and the exact sum over the lines of quantity times unit price, for lines whose
  quantity and unit price are finite Numbers.
\<close>

definition half_up_2dp :: "rat \<Rightarrow> rat" where
  "half_up_2dp x = of_int \<lfloor>x * 100 + 1 / 2\<rfloor> / 100"

fun finite_value :: "json option \<Rightarrow> rat" where
  "finite_value (Some (JNum (Fin x))) = x"
| "finite_value v = 0"

definition exact_amount :: "json list \<Rightarrow> rat" where
  "exact_amount ls =
     sum_list (map (\<lambda>l. finite_value (field l ''qty'') * finite_value (field l ''unit_price'')) ls)"

section \<open>Examples\<close>

text \<open>
  A conversion of strings for the examples: it reads no string as a number. No example
  has a string where a Number is expected.
\<close>

definition no_strings :: "string \<Rightarrow> jsnum" where
  "no_strings s = NaN"

text \<open>A driver whose calls all succeed, and an empty database.\<close>

definition no_errors :: driver where
  "no_errors = \<lparr> getConnection_error = None, select_error = None, insert_error = None,
                  executeMany_error = None, commit_error = None, close_error = None \<rparr>"

definition empty_db :: world where
  "empty_db = \<lparr> ORDERS = [], ORD_DTL = [], tx_ORDERS = [], tx_ORD_DTL = [], calls = [] \<rparr>"

text \<open>An order with two lines; the second gives a sequence number and a discount.\<close>

definition line_a :: json where
  "line_a = JObj [(''prd_id'', JNum (Fin 5)), (''qty'', JNum (Fin 2)),
                  (''unit_price'', JNum (Fin 3)), (''shp_stat_id'', JNum (Fin 2))]"

definition line_b :: json where
  "line_b = JObj [(''prd_id'', JNum (Fin 6)), (''seq'', JNum (Fin 9)), (''qty'', JNum (Fin 1)),
                  (''unit_price'', JNum (Fin 4)), (''discount'', JNum (Fin 1)),
                  (''shp_stat_id'', JNum (Fin 2))]"

definition order7 :: "json option" where
  "order7 = Some (JObj [(''ord_id'', JNum (Fin 7)), (''usr_id'', JNum (Fin 10)),
                        (''pay_stat_id'', JNum (Fin 2)), (''lines'', JArr [line_a, line_b])])"



text \<open>A driver that gets no connection.\<close>

definition no_connection :: driver where
  "no_connection = no_errors\<lparr>getConnection_error := Some ''ORA-12541: TNS:no listener''\<rparr>"


definition order8 :: "json option" where
  "order8 = Some (JObj [(''ord_id'', JNum (Fin 8)), (''usr_id'', JNum (Fin 10)),
                        (''pay_stat_id'', JNum (Fin 2)), (''total_amount'', JNum (Fin 99)),
                        (''lines'', JArr [line_a, line_b])])"

text \<open>A line whose four mandatory fields are all there, the product reference being \<open>0\<close>,
  and an order whose second line it is.\<close>

definition line_zero_product :: json where
  "line_zero_product = JObj [(''prd_id'', JNum (Fin 0)), (''qty'', JNum (Fin 1)),
                             (''unit_price'', JNum (Fin 1)), (''shp_stat_id'', JNum (Fin 2))]"

definition order9 :: "json option" where
  "order9 = Some (JObj [(''ord_id'', JNum (Fin 9)), (''usr_id'', JNum (Fin 10)),
                        (''pay_stat_id'', JNum (Fin 2)),
                        (''lines'', JArr [line_a, line_zero_product])])"


text \<open>
  An order of two lines, one unit at \<open>1\<close> and one unit at \<open>0.005\<close>, and the order of the
  specification's example, three units at \<open>0.105\<close>. A number literal of the request is
  the Number nearest to it.
\<close>

definition line_unit :: json where
  "line_unit = JObj [(''prd_id'', JNum (Fin 5)), (''qty'', JNum (Fin 1)),
                     (''unit_price'', JNum (Fin 1)), (''shp_stat_id'', JNum (Fin 2))]"

definition line_half_cent :: json where
  "line_half_cent = JObj [(''prd_id'', JNum (Fin 6)), (''qty'', JNum (Fin 1)),
                          (''unit_price'', JNum (fl (5 / 1000))), (''shp_stat_id'', JNum (Fin 2))]"

definition order11 :: "json option" where
  "order11 = Some (JObj [(''ord_id'', JNum (Fin 11)), (''usr_id'', JNum (Fin 10)),
                         (''pay_stat_id'', JNum (Fin 2)),
                         (''lines'', JArr [line_unit, line_half_cent])])"

definition line_three :: json where
  "line_three = JObj [(''prd_id'', JNum (Fin 5)), (''qty'', JNum (Fin 3)),
                      (''unit_price'', JNum (fl (105 / 1000))), (''shp_stat_id'', JNum (Fin 2))]"

definition order12 :: "json option" where
  "order12 = Some (JObj [(''ord_id'', JNum (Fin 12)), (''usr_id'', JNum (Fin 10)),
                         (''pay_stat_id'', JNum (Fin 2)), (''lines'', JArr [line_three])])"

section \<open>The arithmetic on known values\<close>

text \<open>
  The literal \<open>0.1\<close> is read as the Number \<open>3602879701896397 / 2^55\<close>; \<open>0.1 + 0.2\<close> is
  \<open>0.30000000000000004\<close>, not the Number read from \<open>0.3\<close>; \<open>2^53 + 1\<close> is a tie and
  goes to \<open>2^53\<close>; \<open>1.005 * 100\<close> is \<open>100.49999999999999\<close>, which \<^verbatim>\<open>Math.round\<close>
  takes to \<open>100\<close>.
\<close>

lemma fl_tenth: "fl (1 / 10) = Fin (3602879701896397 / 36028797018963968)"
  by code_simp

lemma tenth_plus_fifth:
  "num_add (fl (1 / 10)) (fl (2 / 10)) = Fin (1351079888211149 / 4503599627370496)"
  "num_add (fl (1 / 10)) (fl (2 / 10)) \<noteq> fl (3 / 10)"
  by code_simp+

lemma fl_tie_to_even: "fl 9007199254740993 = Fin 9007199254740992"
  by code_simp

lemma round2_1005:
  "num_mul (fl (1005 / 1000)) (Fin 100) = Fin (7072058789855231 / 70368744177664)"
  "Math_round (num_mul (fl (1005 / 1000)) (Fin 100)) = Fin 100"
  "round2 (fl (1005 / 1000)) = Fin 1"
  by code_simp+

section \<open>Validation and the shape of the handler\<close>

lemma getprop_field: "l \<noteq> JNull \<Longrightarrow> getprop l k = Inr (field l k)"
  by (cases l) (auto simp: field_def)

lemma line_rejected_null: "line_rejected JNull = Inl TypeError"
  by (simp add: line_rejected_def)

lemma line_rejected_nonnull: "l \<noteq> JNull \<Longrightarrow> line_rejected l = Inr (line_unusable l)"
  by (simp add: line_rejected_def line_unusable_def getprop_field)

lemma check_lines_None_nonnull: "check_lines i ls = Inr None \<Longrightarrow> JNull \<notin> set ls"
  by (induction ls arbitrary: i) (auto simp: line_rejected_null split: sum.splits bool.splits)



lemma calcTotals_loop_nonnull: "JNull \<notin> set ls \<Longrightarrow> \<exists>t. calcTotals_loop s2n ls a d = Inr t"
  by (induction ls arbitrary: a d) (auto simp: getprop_field Let_def)

lemma calcTotals_nonnull: "JNull \<notin> set ls \<Longrightarrow> \<exists>c. calcTotals s2n ls = Inr c"
  using calcTotals_loop_nonnull[of ls s2n "Fin 0" "Fin 0"]
  by (auto simp: calcTotals_def)


lemma post_valid:
  assumes v: "valid_submission req" and c: "calcTotals s2n (lines_of req) = Inr c"
    and run: "withConn dv (order_tx s2n dv (field (body_of req) ''ord_id'')
                        (header_of s2n req (resolved_totals s2n req c)) (lines_of req)) w = (r, w')"
  shows "post_orders_raw s2n dv req w =
       (case r of
          Inl err \<Rightarrow> Reply 500 (Failure (Message err))
        | Inr conflict \<Rightarrow>
            if conflict then Reply 409 (Failure (AlreadyExists (field (body_of req) ''ord_id'')))
            else Reply 200 (Created (key_of s2n req) (fst (resolved_totals s2n req c))
                                    (snd (resolved_totals s2n req c))), w')"
proof -
  obtain a d where cd: "c = (a, d)" by (cases c)
  have m: "\<not> required_missing (body_of req)"
    and k: "check_lines 0 (elements (field (body_of req) ''lines'')) = Inr None"
    using v by (simp_all add: valid_submission_def lines_of_def)
  have c': "calcTotals s2n (elements (field (body_of req) ''lines'')) = Inr (a, d)"
    using c cd by (simp add: lines_of_def)
  have run': "withConn dv (order_tx s2n dv (field (body_of req) ''ord_id'')
       \<lparr> o_ord_id = Number s2n (field (body_of req) ''ord_id''),
         o_order_date =
           (case field (body_of req) ''order_date'' of
              Some d \<Rightarrow> if truthy (field (body_of req) ''order_date'') then DateOf d else CurrentTime
            | None \<Rightarrow> CurrentTime),
         o_total_amount = (if \<not> nullish (field (body_of req) ''total_amount'')
                          then Number s2n (field (body_of req) ''total_amount'') else a),
         o_total_discount = (if \<not> nullish (field (body_of req) ''total_discount'')
                          then Number s2n (field (body_of req) ''total_discount'') else d),
         o_usr_id = Number s2n (field (body_of req) ''usr_id''),
         o_pay_stat_id = Number s2n (field (body_of req) ''pay_stat_id'') \<rparr>
       (elements (field (body_of req) ''lines''))) w = (r, w')"
    using run unfolding header_of_def resolved_totals_def key_of_def lines_of_def cd fst_conv snd_conv .
  show ?thesis
    unfolding post_orders_raw_def Let_def
    apply (simp only: m k c' run' if_False sum.case option.case prod.case
        key_of_def resolved_totals_def cd fst_conv snd_conv)
    by (cases r) simp_all
qed

lemma post_invalid:
  assumes "\<not> valid_submission req"
  shows "snd (post_orders_raw s2n dv req w) = w \<and> \<not> created (fst (post_orders_raw s2n dv req w))"
  using assms
  by (auto simp: post_orders_raw_def valid_submission_def lines_of_def Let_def
      split: sum.splits option.splits)

section \<open>The transaction\<close>

lemmas driver_defs = withConn_def order_tx_def getConnection_def select_order_def
  insert_order_def insert_lines_def commit_def close_def called_def


lemma tx_rows:
  assumes "withConn dv (order_tx s2n dv oid hdr ls) w = (r, w')"
  shows "(r = Inr False \<longrightarrow>
            (\<exists>bs. binds s2n oid ls = Inr bs \<and> ORDERS w' = ORDERS w @ [hdr] \<and> ORD_DTL w' = ORD_DTL w @ bs))
       \<and> (r \<noteq> Inr False \<longrightarrow> ORDERS w' = ORDERS w \<and> ORD_DTL w' = ORD_DTL w)"
  using assms
  by (auto simp: driver_defs Let_def split: option.splits sum.splits if_splits prod.splits)








section \<open>Atomicity of the order creation\<close>



section \<open>Required fields and duplicate keys\<close>







section \<open>Supplied totals and constraint violations\<close>

lemma created_reply:
  assumes run: "post_orders_raw s2n dv req w = (out, w')" and cr: "created out"
  shows "\<exists>c bs. valid_submission req \<and> calcTotals s2n (lines_of req) = Inr c
          \<and> binds s2n (field (body_of req) ''ord_id'') (lines_of req) = Inr bs
          \<and> out = Reply 200 (Created (key_of s2n req) (fst (resolved_totals s2n req c))
                                      (snd (resolved_totals s2n req c)))
          \<and> ORDERS w' = ORDERS w @ [header_of s2n req (resolved_totals s2n req c)]
          \<and> ORD_DTL w' = ORD_DTL w @ bs"
proof -
  have v: "valid_submission req"
    using post_invalid[of req s2n dv w] run cr by auto
  then have "JNull \<notin> set (lines_of req)"
    by (auto simp: valid_submission_def dest: check_lines_None_nonnull)
  then obtain c where c: "calcTotals s2n (lines_of req) = Inr c"
    using calcTotals_nonnull by blast
  let ?oid = "field (body_of req) ''ord_id''"
  let ?hdr = "header_of s2n req (resolved_totals s2n req c)"
  obtain r w2 where tx: "withConn dv (order_tx s2n dv ?oid ?hdr (lines_of req)) w = (r, w2)"
    by (cases "withConn dv (order_tx s2n dv ?oid ?hdr (lines_of req)) w")
  from post_valid[OF v c tx] run
  have w2: "w' = w2"
    and out: "out = (case r of Inl err \<Rightarrow> Reply 500 (Failure (Message err))
        | Inr conflict \<Rightarrow>
            if conflict then Reply 409 (Failure (AlreadyExists ?oid))
            else Reply 200 (Created (key_of s2n req) (fst (resolved_totals s2n req c))
                                    (snd (resolved_totals s2n req c))))"
    by simp_all
  from cr have r: "r = Inr False"
    unfolding out by (cases r) (auto split: if_splits)
  from tx_rows[OF tx] r obtain bs where
    "binds s2n ?oid (lines_of req) = Inr bs" "ORDERS w2 = ORDERS w @ [?hdr]" "ORD_DTL w2 = ORD_DTL w @ bs"
    by blast
  with v c out r w2 show ?thesis by simp
qed

text \<open>
  C4. In the success response of a valid submission, a total that the request supplies
  (a \<^verbatim>\<open>total_amount\<close> or \<^verbatim>\<open>total_discount\<close> that is there and not \<^verbatim>\<open>null\<close>)
  is the supplied value after \<^verbatim>\<open>Number(...)\<close> and nothing else: it does not depend on
  the lines. A total that is not supplied is the one \<^verbatim>\<open>calcTotals\<close> computes from the
  lines. The header row written carries the same two values.
\<close>

theorem explicit_totals_verbatim:
  assumes run: "post_orders_raw s2n dv req w = (Reply 200 (Created k ta td), w')"
  shows "(\<not> nullish (field (body_of req) ''total_amount'') \<longrightarrow>
            ta = Number s2n (field (body_of req) ''total_amount''))
       \<and> (\<not> nullish (field (body_of req) ''total_discount'') \<longrightarrow>
            td = Number s2n (field (body_of req) ''total_discount''))
       \<and> (\<exists>c. calcTotals s2n (lines_of req) = Inr c
              \<and> (nullish (field (body_of req) ''total_amount'') \<longrightarrow> ta = fst c)
              \<and> (nullish (field (body_of req) ''total_discount'') \<longrightarrow> td = snd c))
       \<and> o_total_amount (last (ORDERS w')) = ta
       \<and> o_total_discount (last (ORDERS w')) = td"
proof -
  have "created (Reply 200 (Created k ta td))" by simp
  from created_reply[OF run this] obtain c where
    c: "calcTotals s2n (lines_of req) = Inr c"
    and ta: "ta = fst (resolved_totals s2n req c)" and td: "td = snd (resolved_totals s2n req c)"
    and rows: "ORDERS w' = ORDERS w @ [header_of s2n req (resolved_totals s2n req c)]"
    by auto
  have "o_total_amount (last (ORDERS w')) = ta" "o_total_discount (last (ORDERS w')) = td"
    unfolding rows ta td by (simp_all add: header_of_def)
  moreover have "\<not> nullish (field (body_of req) ''total_amount'') \<longrightarrow>
            ta = Number s2n (field (body_of req) ''total_amount'')"
    and "\<not> nullish (field (body_of req) ''total_discount'') \<longrightarrow>
            td = Number s2n (field (body_of req) ''total_discount'')"
    and "nullish (field (body_of req) ''total_amount'') \<longrightarrow> ta = fst c"
    and "nullish (field (body_of req) ''total_discount'') \<longrightarrow> td = snd c"
    unfolding ta td by (simp_all add: resolved_totals_def)
  ultimately show ?thesis using c by blast
qed

theorem explicit_totals_verbatim_witness:
  "post_orders_raw no_strings no_errors order8 empty_db
     = (Reply 200 (Created (Fin 8) (Fin 99) (Fin 1)),
        snd (post_orders_raw no_strings no_errors order8 empty_db))
   \<and> \<not> nullish (field (body_of order8) ''total_amount'')
   \<and> Number no_strings (field (body_of order8) ''total_amount'') = Fin 99
   \<and> nullish (field (body_of order8) ''total_discount'')
   \<and> calcTotals no_strings (lines_of order8) = Inr (Fin 10, Fin 1)
   \<and> o_total_amount (last (ORDERS (snd (post_orders_raw no_strings no_errors order8 empty_db)))) = Fin 99
   \<and> post_orders_raw no_strings no_errors order7 empty_db
     = (Reply 200 (Created (Fin 7) (Fin 10) (Fin 1)),
        snd (post_orders_raw no_strings no_errors order7 empty_db))
   \<and> nullish (field (body_of order7) ''total_amount'')
   \<and> calcTotals no_strings (lines_of order7) = Inr (Fin 10, Fin 1)"
proof -
  have run: "post_orders_raw no_strings no_errors order8 empty_db
     = (Reply 200 (Created (Fin 8) (Fin 99) (Fin 1)),
        snd (post_orders_raw no_strings no_errors order8 empty_db))"
    by code_simp
  have a: "\<not> nullish (field (body_of order8) ''total_amount'')"
    and n: "Number no_strings (field (body_of order8) ''total_amount'') = Fin 99"
    and d: "nullish (field (body_of order8) ''total_discount'')"
    and c: "calcTotals no_strings (lines_of order8) = Inr (Fin 10, Fin 1)"
    by code_simp+
  have run7: "post_orders_raw no_strings no_errors order7 empty_db
     = (Reply 200 (Created (Fin 7) (Fin 10) (Fin 1)),
        snd (post_orders_raw no_strings no_errors order7 empty_db))"
    by code_simp
  have a7: "nullish (field (body_of order7) ''total_amount'')"
    and c7: "calcTotals no_strings (lines_of order7) = Inr (Fin 10, Fin 1)"
    by code_simp+
  from explicit_totals_verbatim[OF run] explicit_totals_verbatim[OF run7] run a n d c run7 a7 c7
  show ?thesis by simp
qed




section \<open>Sequence numbers and the scoped connection\<close>





lemma order_tx_calls:
  "\<exists>cs. calls (snd (order_tx s2n dv oid hdr ls v)) = calls v @ cs
        \<and> GetConnection \<notin> set cs \<and> Close \<notin> set cs"
  by (auto simp: order_tx_def select_order_def insert_order_def insert_lines_def commit_def
      called_def split: option.splits sum.splits prod.splits)

text \<open>
  C9. Let \<open>fn\<close> be a function that makes only query calls (it neither gets nor closes a
  connection, as is the case of every function \<^verbatim>\<open>server.js\<close> gives to
  \<^verbatim>\<open>withConn\<close>). When the connection is acquired, the calls of \<^verbatim>\<open>withConn(fn)\<close> are:
  \<^verbatim>\<open>getConnection\<close> first, then the calls of \<open>fn\<close>, then \<^verbatim>\<open>close\<close> once, last,
  whether \<open>fn\<close> returned or threw and whether \<^verbatim>\<open>close\<close> itself threw; the result is
  that of \<open>fn\<close>. When no connection is acquired nothing else is called, \<^verbatim>\<open>close\<close>
  included, and the error of \<^verbatim>\<open>getConnection\<close> is thrown.
\<close>

theorem withConn_releases_once:
  assumes fn: "\<forall>v. \<exists>cs. calls (snd (fn v)) = calls v @ cs
                        \<and> GetConnection \<notin> set cs \<and> Close \<notin> set cs"
  shows "(getConnection_error dv = None \<longrightarrow>
            (\<exists>cs. calls_during w (snd (withConn dv fn w)) = GetConnection # cs @ [Close]
                  \<and> GetConnection \<notin> set cs \<and> Close \<notin> set cs)
            \<and> fst (withConn dv fn w)
                = fst (fn ((called GetConnection w)\<lparr>tx_ORDERS := [], tx_ORD_DTL := []\<rparr>)))
       \<and> (getConnection_error dv \<noteq> None \<longrightarrow>
            calls_during w (snd (withConn dv fn w)) = [GetConnection]
            \<and> (\<exists>m. fst (withConn dv fn w) = Inl (DriverError m)))"
proof (cases "getConnection_error dv")
  case (Some m)
  then show ?thesis
    by (simp add: withConn_def getConnection_def called_def calls_during_def)
next
  case None
  let ?w1 = "(called GetConnection w)\<lparr>tx_ORDERS := [], tx_ORD_DTL := []\<rparr>"
  from fn obtain cs where cs: "calls (snd (fn ?w1)) = calls ?w1 @ cs"
    and nc: "GetConnection \<notin> set cs" "Close \<notin> set cs"
    by blast
  have run: "withConn dv fn w = (fst (fn ?w1), snd (close dv (snd (fn ?w1))))"
    using None by (simp add: withConn_def getConnection_def split: prod.splits)
  have "calls (snd (close dv (snd (fn ?w1)))) = calls w @ GetConnection # cs @ [Close]"
    using cs by (simp add: close_def called_def Let_def split: option.splits)
  then have "calls_during w (snd (withConn dv fn w)) = GetConnection # cs @ [Close]"
    unfolding run by (simp add: calls_during_def)
  with nc run None show ?thesis by auto
qed

theorem withConn_releases_once_witness:
  "getConnection_error no_errors = None
   \<and> calls_during empty_db
        (snd (withConn no_errors
                (order_tx no_strings no_errors (Some (JNum (Fin 7)))
                   (header_of no_strings order7 (Fin 10, Fin 1)) (lines_of order7))
                empty_db))
       = [GetConnection, SelectOrder (Fin 7), InsertOrder, InsertLines, Commit, Close]
   \<and> fst (withConn no_errors
                (order_tx no_strings no_errors (Some (JNum (Fin 7)))
                   (header_of no_strings order7 (Fin 10, Fin 1)) (lines_of order7))
                empty_db)
       = Inr False
   \<and> getConnection_error no_connection \<noteq> None
   \<and> calls_during empty_db
        (snd (withConn no_connection
                (order_tx no_strings no_connection (Some (JNum (Fin 7)))
                   (header_of no_strings order7 (Fin 10, Fin 1)) (lines_of order7))
                empty_db))
       = [GetConnection]"
proof -
  let ?fn = "order_tx no_strings no_errors (Some (JNum (Fin 7)))
               (header_of no_strings order7 (Fin 10, Fin 1)) (lines_of order7)"
  let ?fn' = "order_tx no_strings no_connection (Some (JNum (Fin 7)))
               (header_of no_strings order7 (Fin 10, Fin 1)) (lines_of order7)"
  have h: "\<forall>v. \<exists>cs. calls (snd (?fn v)) = calls v @ cs
                        \<and> GetConnection \<notin> set cs \<and> Close \<notin> set cs"
    using order_tx_calls by blast
  have h': "\<forall>v. \<exists>cs. calls (snd (?fn' v)) = calls v @ cs
                        \<and> GetConnection \<notin> set cs \<and> Close \<notin> set cs"
    using order_tx_calls by blast
  have g: "getConnection_error no_errors = None" by (simp add: no_errors_def)
  have g': "getConnection_error no_connection \<noteq> None"
    by (simp add: no_connection_def no_errors_def)
  have c: "calls_during empty_db (snd (withConn no_errors ?fn empty_db))
       = [GetConnection, SelectOrder (Fin 7), InsertOrder, InsertLines, Commit, Close]"
    by code_simp
  have r: "fst (withConn no_errors ?fn empty_db) = Inr False" by code_simp
  from withConn_releases_once[OF h', of no_connection empty_db] g'
  have "calls_during empty_db (snd (withConn no_connection ?fn' empty_db)) = [GetConnection]"
    by blast
  with withConn_releases_once[OF h, of no_errors empty_db] g g' c r
  show ?thesis by simp
qed

section \<open>Validation of the lines\<close>

lemma check_lines_Some:
  "(check_lines n ls = Inr (Some k)) =
   (\<exists>j. k = n + j \<and> j < length ls \<and> ls ! j \<noteq> JNull \<and> line_unusable (ls ! j)
        \<and> (\<forall>x \<in> set (take j ls). x \<noteq> JNull \<and> \<not> line_unusable x))"
proof (induction ls arbitrary: n)
  case Nil
  then show ?case by simp
next
  case (Cons l ls)
  show ?case
  proof (cases "l = JNull")
    case True
    have "\<not> (\<exists>j. k = n + j \<and> j < length (l # ls) \<and> (l # ls) ! j \<noteq> JNull \<and> line_unusable ((l # ls) ! j)
        \<and> (\<forall>x \<in> set (take j (l # ls)). x \<noteq> JNull \<and> \<not> line_unusable x))"
    proof
      assume "\<exists>j. k = n + j \<and> j < length (l # ls) \<and> (l # ls) ! j \<noteq> JNull \<and> line_unusable ((l # ls) ! j)
        \<and> (\<forall>x \<in> set (take j (l # ls)). x \<noteq> JNull \<and> \<not> line_unusable x)"
      then obtain j where j: "(l # ls) ! j \<noteq> JNull"
        "\<forall>x \<in> set (take j (l # ls)). x \<noteq> JNull \<and> \<not> line_unusable x"
        by blast
      with True show False by (cases j) auto
    qed
    with True show ?thesis by (simp add: line_rejected_null)
  next
    case False
    note nonnull = this
    show ?thesis
    proof (cases "line_unusable l")
      case True
      have "(\<exists>j. k = n + j \<and> j < length (l # ls) \<and> (l # ls) ! j \<noteq> JNull \<and> line_unusable ((l # ls) ! j)
        \<and> (\<forall>x \<in> set (take j (l # ls)). x \<noteq> JNull \<and> \<not> line_unusable x)) = (k = n)"
      proof
        assume "\<exists>j. k = n + j \<and> j < length (l # ls) \<and> (l # ls) ! j \<noteq> JNull \<and> line_unusable ((l # ls) ! j)
        \<and> (\<forall>x \<in> set (take j (l # ls)). x \<noteq> JNull \<and> \<not> line_unusable x)"
        then obtain j where j: "k = n + j"
          "\<forall>x \<in> set (take j (l # ls)). x \<noteq> JNull \<and> \<not> line_unusable x"
          by blast
        with True show "k = n" by (cases j) auto
      next
        assume "k = n"
        with True nonnull show "\<exists>j. k = n + j \<and> j < length (l # ls) \<and> (l # ls) ! j \<noteq> JNull
          \<and> line_unusable ((l # ls) ! j)
          \<and> (\<forall>x \<in> set (take j (l # ls)). x \<noteq> JNull \<and> \<not> line_unusable x)"
          by (intro exI[of _ 0]) simp
      qed
      with True nonnull show ?thesis
        by (auto simp: line_rejected_nonnull)
    next
      case False
      have "(\<exists>j. k = n + j \<and> j < length (l # ls) \<and> (l # ls) ! j \<noteq> JNull \<and> line_unusable ((l # ls) ! j)
        \<and> (\<forall>x \<in> set (take j (l # ls)). x \<noteq> JNull \<and> \<not> line_unusable x))
        = (\<exists>j. k = Suc n + j \<and> j < length ls \<and> ls ! j \<noteq> JNull \<and> line_unusable (ls ! j)
        \<and> (\<forall>x \<in> set (take j ls). x \<noteq> JNull \<and> \<not> line_unusable x))"
        (is "?L = ?R")
      proof
        assume ?L
        then obtain j where j: "k = n + j" "j < length (l # ls)" "(l # ls) ! j \<noteq> JNull"
          "line_unusable ((l # ls) ! j)"
          "\<forall>x \<in> set (take j (l # ls)). x \<noteq> JNull \<and> \<not> line_unusable x"
          by blast
        with False obtain i where "j = Suc i" by (cases j) auto
        with j show ?R by (intro exI[of _ i]) simp
      next
        assume ?R
        then obtain i where i: "k = Suc n + i" "i < length ls" "ls ! i \<noteq> JNull"
          "line_unusable (ls ! i)"
          "\<forall>x \<in> set (take i ls). x \<noteq> JNull \<and> \<not> line_unusable x"
          by blast
        with False nonnull show ?L by (intro exI[of _ "Suc i"]) simp
      qed
      with False nonnull Cons.IH[of "Suc n"] show ?thesis
        by (simp add: line_rejected_nonnull)
    qed
  qed
qed

lemma prefix_set_nth: "j \<le> length ls \<Longrightarrow> (\<forall>x \<in> set (take j ls). P x) = (\<forall>m<j. P (ls ! m))"
proof
  assume j: "j \<le> length ls" and a: "\<forall>x \<in> set (take j ls). P x"
  show "\<forall>m<j. P (ls ! m)"
  proof (intro allI impI)
    fix m assume m: "m < j"
    with j have "take j ls ! m \<in> set (take j ls)" by (intro nth_mem) simp
    with a m show "P (ls ! m)" by simp
  qed
next
  assume "j \<le> length ls" and "\<forall>m<j. P (ls ! m)"
  then show "\<forall>x \<in> set (take j ls). P x"
    by (auto simp: in_set_conv_nth)
qed

lemma first_rejected:
  "(check_lines 0 ls = Inr (Some i)) =
   (i < length ls \<and> (\<forall>j\<le>i. ls ! j \<noteq> JNull) \<and> line_unusable (ls ! i)
    \<and> (\<forall>j<i. \<not> line_unusable (ls ! j)))"
proof -
  have "(check_lines 0 ls = Inr (Some i)) =
     (i < length ls \<and> ls ! i \<noteq> JNull \<and> line_unusable (ls ! i)
        \<and> (\<forall>x \<in> set (take i ls). x \<noteq> JNull \<and> \<not> line_unusable x))"
    by (auto simp: check_lines_Some)
  also have "\<dots> = (i < length ls \<and> ls ! i \<noteq> JNull \<and> line_unusable (ls ! i)
        \<and> (\<forall>m<i. ls ! m \<noteq> JNull \<and> \<not> line_unusable (ls ! m)))"
    using prefix_set_nth[of i ls "\<lambda>x. x \<noteq> JNull \<and> \<not> line_unusable x"] by auto
  also have "\<dots> = (i < length ls \<and> (\<forall>j\<le>i. ls ! j \<noteq> JNull) \<and> line_unusable (ls ! i)
    \<and> (\<forall>j<i. \<not> line_unusable (ls ! j)))"
    by (auto simp: le_less)
  finally show ?thesis .
qed

lemma line_reply:
  "(fst (post_orders_raw s2n dv req w) = Reply 400 (Failure (LineFields i)))
   = (\<not> required_missing (body_of req) \<and> check_lines 0 (lines_of req) = Inr (Some i))"
proof (cases "valid_submission req")
  case True
  then have "JNull \<notin> set (lines_of req)"
    by (auto simp: valid_submission_def dest: check_lines_None_nonnull)
  then obtain c where c: "calcTotals s2n (lines_of req) = Inr c"
    using calcTotals_nonnull by blast
  let ?oid = "field (body_of req) ''ord_id''"
  let ?hdr = "header_of s2n req (resolved_totals s2n req c)"
  obtain r w2 where tx: "withConn dv (order_tx s2n dv ?oid ?hdr (lines_of req)) w = (r, w2)"
    by (cases "withConn dv (order_tx s2n dv ?oid ?hdr (lines_of req)) w")
  have "fst (post_orders_raw s2n dv req w) \<noteq> Reply 400 (Failure (LineFields i))"
    unfolding post_valid[OF True c tx] by (cases r) auto
  with True show ?thesis by (simp add: valid_submission_def)
next
  case False
  then show ?thesis
    by (auto simp: post_orders_raw_def valid_submission_def lines_of_def Let_def
        split: sum.splits option.splits)
qed

lemma line_reply_world:
  "fst (post_orders_raw s2n dv req w) = Reply 400 b \<Longrightarrow> snd (post_orders_raw s2n dv req w) = w"
proof (cases "valid_submission req")
  case True
  assume a: "fst (post_orders_raw s2n dv req w) = Reply 400 b"
  from True have "JNull \<notin> set (lines_of req)"
    by (auto simp: valid_submission_def dest: check_lines_None_nonnull)
  then obtain c where c: "calcTotals s2n (lines_of req) = Inr c"
    using calcTotals_nonnull by blast
  let ?oid = "field (body_of req) ''ord_id''"
  let ?hdr = "header_of s2n req (resolved_totals s2n req c)"
  obtain r w2 where tx: "withConn dv (order_tx s2n dv ?oid ?hdr (lines_of req)) w = (r, w2)"
    by (cases "withConn dv (order_tx s2n dv ?oid ?hdr (lines_of req)) w")
  have "fst (post_orders_raw s2n dv req w) \<noteq> Reply 400 b"
    unfolding post_valid[OF True c tx] by (cases r) auto
  with a show ?thesis by simp
next
  case False
  then show ?thesis using post_invalid by blast
qed

text \<open>
  C6, as the specification states it, at a concrete input. The second line of the order
  has its product reference, quantity, unit price and shipment-status reference, none
  absent and none \<^verbatim>\<open>null\<close>; the product reference is \<open>0\<close>. No line of the order is
  missing a field, and the request is rejected with status 400 naming line 1.
\<close>

theorem line_missing_counterexample:
  "fst (post_orders_raw no_strings no_errors order9 empty_db) = Reply 400 (Failure (LineFields 1))
   \<and> \<not> line_missing_field (lines_of order9 ! 0)
   \<and> \<not> line_missing_field (lines_of order9 ! 1)
   \<and> length (lines_of order9) = 2"
  by code_simp

text \<open>
  C6, amended. Let no line up to index \<open>i\<close> be the JSON value \<^verbatim>\<open>null\<close>. The request
  is rejected with status 400 naming line \<open>i\<close> exactly when the required fields of the
  order are there and \<open>i\<close> is the first index whose line the handler does not accept:
  its product reference or its shipment-status reference is absent or falsy (\<^verbatim>\<open>null\<close>,
  \<^verbatim>\<open>false\<close>, \<open>0\<close>, the empty string), or its quantity or its unit price is absent
  or \<^verbatim>\<open>null\<close>. No driver call is made and no row is written then.
\<close>

theorem line_rejected_iff_first_unusable:
  assumes nonnull: "\<forall>j\<le>i. j < length (lines_of req) \<longrightarrow> lines_of req ! j \<noteq> JNull"
  shows "(fst (post_orders_raw s2n dv req w) = Reply 400 (Failure (LineFields i)))
           = (\<not> required_missing (body_of req) \<and> i < length (lines_of req)
              \<and> line_unusable (lines_of req ! i)
              \<and> (\<forall>j<i. \<not> line_unusable (lines_of req ! j)))
       \<and> (fst (post_orders_raw s2n dv req w) = Reply 400 (Failure (LineFields i)) \<longrightarrow>
            snd (post_orders_raw s2n dv req w) = w)"
proof -
  from nonnull have "i < length (lines_of req) \<Longrightarrow> \<forall>j\<le>i. lines_of req ! j \<noteq> JNull"
    by auto
  then have "(check_lines 0 (lines_of req) = Inr (Some i))
      = (i < length (lines_of req) \<and> line_unusable (lines_of req ! i)
         \<and> (\<forall>j<i. \<not> line_unusable (lines_of req ! j)))"
    unfolding first_rejected by blast
  with line_reply[of s2n dv req w i]
    line_reply_world[of s2n dv req w "Failure (LineFields i)"]
  show ?thesis by blast
qed

theorem line_rejected_iff_first_unusable_witness:
  "lines_of order9 ! 0 \<noteq> JNull \<and> lines_of order9 ! 1 \<noteq> JNull
   \<and> fst (post_orders_raw no_strings no_errors order9 empty_db) = Reply 400 (Failure (LineFields 1))
   \<and> snd (post_orders_raw no_strings no_errors order9 empty_db) = empty_db
   \<and> line_unusable (lines_of order9 ! 1)
   \<and> \<not> line_unusable (lines_of order9 ! 0)"
proof -
  have n: "lines_of order9 ! 0 \<noteq> JNull" "lines_of order9 ! 1 \<noteq> JNull"
    by code_simp+
  then have h: "\<forall>j\<le>1. j < length (lines_of order9) \<longrightarrow> lines_of order9 ! j \<noteq> JNull"
    by (auto simp: le_Suc_eq)
  have r: "fst (post_orders_raw no_strings no_errors order9 empty_db)
             = Reply 400 (Failure (LineFields 1))"
    by code_simp
  from line_rejected_iff_first_unusable[OF h, of no_strings no_errors empty_db] r n
  show ?thesis by auto
qed




section \<open>Computed totals\<close>

lemma check_lines_None_usable:
  "check_lines i ls = Inr None \<Longrightarrow> l \<in> set ls \<Longrightarrow> l \<noteq> JNull \<and> \<not> line_unusable l"
proof (induction ls arbitrary: i)
  case Nil
  then show ?case by simp
next
  case (Cons x xs)
  from Cons.prems(1) have x: "x \<noteq> JNull"
    by (auto simp: line_rejected_null)
  with Cons.prems(1) have ux: "\<not> line_unusable x" and rest: "check_lines (Suc i) xs = Inr None"
    by (auto simp: line_rejected_nonnull split: bool.splits)
  from Cons.prems(2) x ux Cons.IH[OF rest] show ?case by auto
qed

lemma coalesce_number:
  "Number s2n (Some (coalesce v (JNum (Fin 0)))) = (if nullish v then Fin 0 else Number s2n v)"
  by (cases v rule: nullish.cases) (simp_all add: coalesce_def Number_def)

lemma calcTotals_loop_sums:
  assumes "\<forall>l \<in> set ls. l \<noteq> JNull \<and> \<not> line_unusable l"
  shows "calcTotals_loop s2n ls a d =
           Inr (foldl num_add a (map (line_amount s2n) ls),
                foldl num_add d (map (line_discount s2n) ls))"
  using assms
proof (induction ls arbitrary: a d)
  case Nil
  then show ?case by simp
next
  case (Cons l ls)
  then have l: "l \<noteq> JNull" and q: "\<not> nullish (field l ''qty'')"
    and u: "\<not> nullish (field l ''unit_price'')"
    by (auto simp: line_unusable_def)
  have step: "calcTotals_loop s2n (l # ls) a d =
      calcTotals_loop s2n ls (num_add a (line_amount s2n l)) (num_add d (line_discount s2n l))"
    using l q u
    by (simp add: getprop_field coalesce_number line_amount_def line_discount_def Let_def)
  from Cons.prems have "\<forall>l \<in> set ls. l \<noteq> JNull \<and> \<not> line_unusable l" by simp
  from Cons.IH[OF this] step show ?case by simp
qed

lemma calcTotals_sums:
  assumes "valid_submission req"
  shows "calcTotals s2n (lines_of req) =
           Inr (round2 (sum_numbers (map (line_amount s2n) (lines_of req))),
                round2 (sum_numbers (map (line_discount s2n) (lines_of req))))"
proof -
  from assms have "\<forall>l \<in> set (lines_of req). l \<noteq> JNull \<and> \<not> line_unusable l"
    using check_lines_None_usable by (auto simp: valid_submission_def)
  from calcTotals_loop_sums[OF this] show ?thesis
    by (simp add: calcTotals_def sum_numbers_def)
qed

text \<open>
  C3, as the specification states it, at a concrete input. The order has two lines, one
  unit at \<open>1\<close> and one unit at \<open>0.005\<close>, and gives no totals. The sum of quantity times
  unit price is \<open>1.005\<close>, and so is, a little above, the exact sum of the two Numbers
  received; rounded half-up to 2 decimal places either is \<open>1.01\<close>. The handler returns
  the total amount \<open>1\<close>.
\<close>

theorem totals_rounding_counterexample:
  "valid_submission order11
   \<and> nullish (field (body_of order11) ''total_amount'')
   \<and> fst (post_orders_raw no_strings no_errors order11 empty_db)
       = Reply 200 (Created (Fin 11) (Fin 1) (Fin 0))
   \<and> half_up_2dp (1 * 1 + 1 * (5 / 1000)) = 101 / 100
   \<and> half_up_2dp (exact_amount (lines_of order11)) = 101 / 100
   \<and> fl (101 / 100) \<noteq> Fin 1"
  by code_simp

text \<open>
  C3, amended. For a valid submission, in the success response a total amount that the
  request does not supply is \<^verbatim>\<open>Math.round(S * 100) / 100\<close>, where \<open>S\<close> is the sum over
  the lines, in order, of quantity times unit price, and a total discount that the
  request does not supply is the same rounding of the sum of the lines' discounts, a
  missing discount counting as \<open>0\<close>; every product, every addition, the scaling by 100
  and the division by 100 is an operation on Numbers (binary64) and rounds to the
  nearest Number. The rounding to 2 decimal places is applied once to each sum, not to
  the contribution of a line.
\<close>

theorem totals_rounded_once:
  assumes run: "post_orders_raw s2n dv req w = (Reply 200 (Created k ta td), w')"
  shows "(nullish (field (body_of req) ''total_amount'') \<longrightarrow>
            ta = round2 (sum_numbers (map (line_amount s2n) (lines_of req))))
       \<and> (nullish (field (body_of req) ''total_discount'') \<longrightarrow>
            td = round2 (sum_numbers (map (line_discount s2n) (lines_of req))))"
proof -
  have "created (Reply 200 (Created k ta td))" by simp
  from created_reply[OF run this] obtain c where
    v: "valid_submission req" and c: "calcTotals s2n (lines_of req) = Inr c"
    and ta: "ta = fst (resolved_totals s2n req c)" and td: "td = snd (resolved_totals s2n req c)"
    by auto
  from calcTotals_sums[OF v, of s2n] c
  have "c = (round2 (sum_numbers (map (line_amount s2n) (lines_of req))),
             round2 (sum_numbers (map (line_discount s2n) (lines_of req))))"
    by simp
  then show ?thesis
    unfolding ta td by (simp add: resolved_totals_def)
qed

theorem totals_rounded_once_witness:
  "post_orders_raw no_strings no_errors order12 empty_db
     = (Reply 200 (Created (Fin 12) (fl (32 / 100)) (Fin 0)),
        snd (post_orders_raw no_strings no_errors order12 empty_db))
   \<and> nullish (field (body_of order12) ''total_amount'')
   \<and> nullish (field (body_of order12) ''total_discount'')
   \<and> round2 (sum_numbers (map (line_amount no_strings) (lines_of order12))) = fl (32 / 100)
   \<and> round2 (sum_numbers (map (line_discount no_strings) (lines_of order12))) = Fin 0"
proof -
  have run: "post_orders_raw no_strings no_errors order12 empty_db
     = (Reply 200 (Created (Fin 12) (fl (32 / 100)) (Fin 0)),
        snd (post_orders_raw no_strings no_errors order12 empty_db))"
    by code_simp
  have n: "nullish (field (body_of order12) ''total_amount'')"
    "nullish (field (body_of order12) ''total_discount'')"
    by code_simp+
  from totals_rounded_once[OF run] n run
  show ?thesis by simp
qed

end
